theory Spec2Isabelle
  imports Main
begin

section \<open>Python strings\<close>

text \<open>
  A Python \<^verbatim>\<open>str\<close> is a sequence of Unicode code points. The model covers the strings
  whose code points lie in U+0000 .. U+00FF: a \<^typ>\<open>char\<close> \<open>c\<close> stands for the code point
  \<open>ord c\<close>, and \<^typ>\<open>string\<close> for such a \<^verbatim>\<open>str\<close>. The character classes below are those
  of CPython 3 on that range.
\<close>

definition ord :: "char \<Rightarrow> nat" where
  "ord c = of_char c"

definition chr :: "nat \<Rightarrow> char" where
  "chr n = char_of n"

text \<open>\<^verbatim>\<open>str.isspace\<close>, and the class \<^verbatim>\<open>\s\<close> of \<^verbatim>\<open>re\<close> on a \<^verbatim>\<open>str\<close> pattern.\<close>

definition isspace :: "char \<Rightarrow> bool" where
  "isspace c = (ord c \<in> {9, 10, 11, 12, 13, 28, 29, 30, 31, 32, 133, 160})"

text \<open>The class \<^verbatim>\<open>\d\<close> of \<^verbatim>\<open>re\<close>: the decimal digits, which are also what \<^verbatim>\<open>int\<close> parses.\<close>

definition is_decimal :: "char \<Rightarrow> bool" where
  "is_decimal c = (48 \<le> ord c \<and> ord c \<le> 57)"

text \<open>
  \<^verbatim>\<open>str.isdigit\<close> on one character: the decimal digits and the superscripts
  U+00B2, U+00B3 and U+00B9.
\<close>

definition isdigit_char :: "char \<Rightarrow> bool" where
  "isdigit_char c = (is_decimal c \<or> ord c \<in> {178, 179, 185})"

definition isupper_char :: "char \<Rightarrow> bool" where
  "isupper_char c =
     ((65 \<le> ord c \<and> ord c \<le> 90) \<or> (192 \<le> ord c \<and> ord c \<le> 214) \<or>
      (216 \<le> ord c \<and> ord c \<le> 222))"

definition islower_char :: "char \<Rightarrow> bool" where
  "islower_char c =
     ((97 \<le> ord c \<and> ord c \<le> 122) \<or> ord c \<in> {170, 181, 186} \<or>
      (223 \<le> ord c \<and> ord c \<le> 246) \<or> (248 \<le> ord c \<and> ord c \<le> 255))"

text \<open>The class \<^verbatim>\<open>\w\<close> of \<^verbatim>\<open>re\<close>: alphanumeric characters and the underscore.\<close>

definition is_word :: "char \<Rightarrow> bool" where
  "is_word c =
     (isdigit_char c \<or> isupper_char c \<or> islower_char c \<or> ord c = 95 \<or>
      ord c \<in> {188, 189, 190})"

definition lower_char :: "char \<Rightarrow> char" where
  "lower_char c = (if isupper_char c then chr (ord c + 32) else c)"

definition lower :: "string \<Rightarrow> string" where
  "lower s = map lower_char s"

text \<open>\<^verbatim>\<open>s.strip()\<close> and \<^verbatim>\<open>s.strip(chars)\<close>.\<close>

definition strip :: "string \<Rightarrow> string" where
  "strip s = rev (dropWhile isspace (rev (dropWhile isspace s)))"

definition strip_chars :: "string \<Rightarrow> string \<Rightarrow> string" where
  "strip_chars cs s =
     rev (dropWhile (\<lambda>c. c \<in> set cs) (rev (dropWhile (\<lambda>c. c \<in> set cs) s)))"

text \<open>
  \<^verbatim>\<open>s.split()\<close>: the maximal runs of non-whitespace characters, in order. The first
  argument is the word read so far.
\<close>

fun split_from :: "string \<Rightarrow> string \<Rightarrow> string list" where
  "split_from w [] = (if w = [] then [] else [w])"
| "split_from w (c # cs) =
     (if isspace c then (if w = [] then split_from [] cs else w # split_from [] cs)
      else split_from (w @ [c]) cs)"

definition split :: "string \<Rightarrow> string list" where
  "split s = split_from [] s"

text \<open>\<^verbatim>\<open>sep.join(xs)\<close>.\<close>

fun join :: "string \<Rightarrow> string list \<Rightarrow> string" where
  "join sep [] = []"
| "join sep [x] = x"
| "join sep (x # y # ys) = x @ sep @ join sep (y # ys)"

text \<open>\<^verbatim>\<open>s.isdigit()\<close>: at least one character, and all of them digits.\<close>

definition isdigit :: "string \<Rightarrow> bool" where
  "isdigit s = (s \<noteq> [] \<and> list_all isdigit_char s)"

text \<open>
  \<^verbatim>\<open>s.isupper()\<close>: no lower-case character and at least one upper-case one (the
  range has no title-case character).
\<close>

definition isupper :: "string \<Rightarrow> bool" where
  "isupper s = (list_all (\<lambda>c. \<not> islower_char c) s \<and> list_ex isupper_char s)"

text \<open>\<^verbatim>\<open>s.startswith(p)\<close>, and \<^verbatim>\<open>k in s\<close> for strings.\<close>

fun startswith :: "string \<Rightarrow> string \<Rightarrow> bool" where
  "startswith [] s = True"
| "startswith (p # ps) [] = False"
| "startswith (p # ps) (c # cs) = (p = c \<and> startswith ps cs)"

fun contains :: "string \<Rightarrow> string \<Rightarrow> bool" where
  "contains k [] = (k = [])"
| "contains k (c # cs) = (startswith k (c # cs) \<or> contains k cs)"

text \<open>
  \<^verbatim>\<open>re.search(p, s)\<close> for a pattern whose match at a position is decided by \<open>m\<close> on
  the rest of the string from there: some position matches, the end included.
\<close>

fun search :: "(string \<Rightarrow> bool) \<Rightarrow> string \<Rightarrow> bool" where
  "search m [] = m []"
| "search m (c # cs) = (m (c # cs) \<or> search m cs)"

text \<open>
  \<^verbatim>\<open>int(c)\<close> for a string of one character: a decimal digit has its value, any other
  character raises \<^verbatim>\<open>ValueError\<close>; so do the superscript digits that \<^verbatim>\<open>isdigit\<close> accepts.
\<close>

datatype error = ValueError | IndexError

definition int_of_char :: "char \<Rightarrow> error + int" where
  "int_of_char c = (if is_decimal c then Inr (int (ord c) - 48) else Inl ValueError)"

section \<open>The regular expressions' building blocks\<close>

text \<open>
  \<^verbatim>\<open>re.sub(p, repl, s)\<close> for a pattern that cannot match the empty string. \<open>m prev s\<close>
  decides the match of the pattern at a position, from the character before it (for
  \<^verbatim>\<open>\b\<close>) and the rest \<open>s\<close> of the string from there, and gives the length of the
  match. The scan goes left to right: a match is replaced and the scan resumes behind
  it (the counter is the number of matched characters still to pass).
\<close>

fun re_sub :: "(char option \<Rightarrow> string \<Rightarrow> nat option) \<Rightarrow> string \<Rightarrow> nat \<Rightarrow> char option \<Rightarrow> string \<Rightarrow> string" where
  "re_sub m repl k prev [] = []"
| "re_sub m repl (Suc k) prev (c # cs) = re_sub m repl k (Some c) cs"
| "re_sub m repl 0 prev (c # cs) =
     (case m prev (c # cs) of
        None \<Rightarrow> c # re_sub m repl 0 (Some c) cs
      | Some n \<Rightarrow>
          (case n of
             0 \<Rightarrow> c # re_sub m repl 0 (Some c) cs
           | Suc j \<Rightarrow> repl @ re_sub m repl j (Some c) cs))"

text \<open>\<^verbatim>\<open>\d{n}\<close> at the start of \<open>s\<close>.\<close>

definition digits_at :: "nat \<Rightarrow> string \<Rightarrow> bool" where
  "digits_at n s = (n \<le> length s \<and> list_all is_decimal (take n s))"

text \<open>A literal under \<^verbatim>\<open>re.IGNORECASE\<close> at the start of \<open>s\<close>.\<close>

fun startswith_ci :: "string \<Rightarrow> string \<Rightarrow> bool" where
  "startswith_ci [] s = True"
| "startswith_ci (p # ps) [] = False"
| "startswith_ci (p # ps) (c # cs) = (lower_char p = lower_char c \<and> startswith_ci ps cs)"

text \<open>
  \<^verbatim>\<open>\b\<close> between two neighbours (\<open>None\<close> is the start or the end of the string): one of
  them is a word character and the other is not.
\<close>

definition is_word_opt :: "char option \<Rightarrow> bool" where
  "is_word_opt x = (case x of None \<Rightarrow> False | Some c \<Rightarrow> is_word c)"

definition word_boundary :: "char option \<Rightarrow> char option \<Rightarrow> bool" where
  "word_boundary prev nxt = (is_word_opt prev \<noteq> is_word_opt nxt)"

definition first_char :: "string \<Rightarrow> char option" where
  "first_char s = (case s of [] \<Rightarrow> None | c # _ \<Rightarrow> Some c)"

definition newline :: char where
  "newline = CHR 0x0A"

section \<open>Occupation records\<close>

record occupation =
  nco_code :: string
  title :: string
  description :: string

text \<open>
  \<^verbatim>\<open>Occupation.is_valid\<close>: a chain of \<^verbatim>\<open>and\<close>, evaluated left to right; the first false
  conjunct decides, and \<^verbatim>\<open>int(self.nco_code[0])\<close> is only evaluated after the ones
  before it held.
\<close>

definition is_valid :: "occupation \<Rightarrow> error + bool" where
  "is_valid occ =
     (if nco_code occ = [] \<or> strip (nco_code occ) = [] then Inr False
      else if title occ = [] \<or> strip (title occ) = [] then Inr False
      else if description occ = [] \<or> strip (description occ) = [] then Inr False
      else if length (nco_code occ) \<noteq> 4 then Inr False
      else if \<not> isdigit (nco_code occ) then Inr False
      else (case nco_code occ of
              [] \<Rightarrow> Inl IndexError
            | c # _ \<Rightarrow>
                (case int_of_char c of
                   Inl e \<Rightarrow> Inl e
                 | Inr n \<Rightarrow>
                     Inr (1 \<le> n \<and> 3 < length (title occ) \<and> 20 < length (description occ)))))"

section \<open>The extractor's predicates\<close>

definition HEADER_KEYWORDS :: "string list" where
  "HEADER_KEYWORDS =
     [''division'', ''sub-division'', ''subdivision'', ''family'', ''sub-family'',
      ''volume'', ''part'', ''section'', ''chapter'', ''index'', ''contents'',
      ''classification'', ''national'', ''occupations'', ''annexure'', ''group'',
      ''preface'', ''foreword'', ''introduction'']"

definition METADATA_KEYWORDS :: "string list" where
  "METADATA_KEYWORDS =
     [''qualification pack'', ''qp-nos'', ''qp nos'', ''nsqf'', ''nos code'',
      ''performance criteria'', ''knowledge and understanding'',
      ''sector'', ''occupation map'', ''nveqf'', ''also known as'']"

text \<open>\<^verbatim>\<open>NCOExtractor.is_valid_nco_code\<close>.\<close>

definition is_valid_nco_code :: "string \<Rightarrow> bool" where
  "is_valid_nco_code text =
     (if text = [] \<or> \<not> isdigit text then False
      else if length text \<noteq> 4 then False
      else if hd text = CHR ''0'' then False
      else if text \<in> set [''2015'', ''2016'', ''2017'', ''2018'', ''2019'', ''2020'', ''2021'']
        then False
      else True)"

text \<open>
  \<^verbatim>\<open>NCOExtractor.is_header_line\<close>. The last test of the source returns \<^verbatim>\<open>True\<close> when
  \<^verbatim>\<open>words\<close> is not empty and its first word is not a valid code, and falls through to
  \<^verbatim>\<open>return False\<close> otherwise.
\<close>

definition is_header_line :: "string \<Rightarrow> bool" where
  "is_header_line line =
     (let line_lower = strip (lower line) in
      if length line_lower < 5 then False
      else if list_ex (\<lambda>keyword. contains keyword line_lower) HEADER_KEYWORDS then True
      else
        (let words = split line in
         if length words \<le> 6 \<and> isupper line then
           (case words of [] \<Rightarrow> False | w # _ \<Rightarrow> \<not> is_valid_nco_code w)
         else False))"

text \<open>The pattern \<^verbatim>\<open>\d{4}\.\d{4}\<close> at the start of \<open>s\<close>.\<close>

definition match_subcode :: "string \<Rightarrow> bool" where
  "match_subcode s = (digits_at 4 s \<and> startswith ''.'' (drop 4 s) \<and> digits_at 4 (drop 5 s))"

text \<open>The pattern \<^verbatim>\<open>(agr|con|ite|css|ssc|ffs)/q\d+\<close> at the start of \<open>s\<close>.\<close>

definition match_qp_code :: "string \<Rightarrow> bool" where
  "match_qp_code s =
     (list_ex (\<lambda>p. startswith p s) [''agr'', ''con'', ''ite'', ''css'', ''ssc'', ''ffs''] \<and>
      startswith ''/q'' (drop 3 s) \<and> digits_at 1 (drop 5 s))"

text \<open>\<^verbatim>\<open>NCOExtractor.is_metadata_section\<close>.\<close>

definition is_metadata_section :: "string \<Rightarrow> bool" where
  "is_metadata_section line =
     (let line_lower = strip (lower line) in
      if list_ex (\<lambda>keyword. contains keyword line_lower) METADATA_KEYWORDS then True
      else if search match_subcode line then True
      else if search match_qp_code line_lower then True
      else False)"

text \<open>
  The three \<^verbatim>\<open>ISCO_PATTERNS\<close> at the start of \<open>s\<close>: \<^verbatim>\<open>isco[-\s]*08\<close>,
  \<^verbatim>\<open>unit group:?\s*\d{4}\<close> and \<^verbatim>\<open>sub-group:?\s*\d{3}\<close>. The greedy repetitions cannot
  give a character back to what follows them (a digit is neither a hyphen nor
  whitespace, and a colon is neither whitespace nor a digit).
\<close>

definition match_isco08 :: "string \<Rightarrow> bool" where
  "match_isco08 s =
     (startswith ''isco'' s \<and>
      startswith ''08'' (dropWhile (\<lambda>c. c = CHR ''-'' \<or> isspace c) (drop 4 s)))"

definition after_colon :: "string \<Rightarrow> string" where
  "after_colon r = dropWhile isspace (if startswith '':'' r then drop 1 r else r)"

definition match_unit_group :: "string \<Rightarrow> bool" where
  "match_unit_group s = (startswith ''unit group'' s \<and> digits_at 4 (after_colon (drop 10 s)))"

definition match_sub_group :: "string \<Rightarrow> bool" where
  "match_sub_group s = (startswith ''sub-group'' s \<and> digits_at 3 (after_colon (drop 9 s)))"

text \<open>\<^verbatim>\<open>NCOExtractor.should_stop_description\<close>.\<close>

definition should_stop_description :: "string \<Rightarrow> bool" where
  "should_stop_description line =
     (let line_lower = strip (lower line) in
      if search match_isco08 line_lower \<or> search match_unit_group line_lower \<or>
         search match_sub_group line_lower then True
      else if contains ''qualification pack'' line_lower \<or> contains ''qp-nos'' line_lower
        then True
      else False)"

text \<open>
  The page-number test \<^verbatim>\<open>re.match(r'^\d+$', line)\<close>: one or more decimal digits up to
  the end of the string, or up to a newline that ends it.
\<close>

definition match_all_digits :: "string \<Rightarrow> bool" where
  "match_all_digits s =
     (let t = (if s \<noteq> [] \<and> last s = newline then butlast s else s)
      in t \<noteq> [] \<and> list_all is_decimal t)"

section \<open>Cleaning a title\<close>

text \<open>
  \<^verbatim>\<open>.*?ISCO\<close> and \<^verbatim>\<open>.*?\)\<close> from the start of a string, as the number of characters
  they take: the lazy \<^verbatim>\<open>.*?\<close> stops at the first occurrence and never crosses a
  newline.
\<close>

fun find_isco :: "string \<Rightarrow> nat option" where
  "find_isco [] = None"
| "find_isco (c # cs) =
     (if startswith_ci ''ISCO'' (c # cs) then Some 4
      else if c = newline then None
      else map_option Suc (find_isco cs))"

fun find_close :: "string \<Rightarrow> nat option" where
  "find_close [] = None"
| "find_close (c # cs) =
     (if c = CHR '')'' then Some 1
      else if c = newline then None
      else map_option Suc (find_close cs))"

text \<open>
  \<^verbatim>\<open>\s*\(.*?ISCO.*?\)\<close> under \<^verbatim>\<open>re.IGNORECASE\<close> at a position. When no parenthesis closes
  behind the first \<^verbatim>\<open>ISCO\<close> on the line, none closes behind a later one either.
\<close>

definition match_isco_paren :: "char option \<Rightarrow> string \<Rightarrow> nat option" where
  "match_isco_paren prev s =
     (let n0 = length (takeWhile isspace s); r = dropWhile isspace s in
      if startswith ''('' r then
        (case find_isco (drop 1 r) of
           None \<Rightarrow> None
         | Some k \<Rightarrow>
             (case find_close (drop (1 + k) r) of
                None \<Rightarrow> None
              | Some j \<Rightarrow> Some (n0 + 1 + k + j)))
      else None)"

text \<open>
  \<^verbatim>\<open>\s*ISCO.*$\<close> under \<^verbatim>\<open>re.IGNORECASE\<close> at a position: \<^verbatim>\<open>.*\<close> runs to the first newline
  or to the end, and \<^verbatim>\<open>$\<close> holds at the end of the string or before a newline that
  ends it.
\<close>

definition match_isco_tail :: "char option \<Rightarrow> string \<Rightarrow> nat option" where
  "match_isco_tail prev s =
     (let n0 = length (takeWhile isspace s); r = dropWhile isspace s in
      if startswith_ci ''ISCO'' r then
        (let l = takeWhile (\<lambda>c. c \<noteq> newline) (drop 4 r);
             rest = dropWhile (\<lambda>c. c \<noteq> newline) (drop 4 r)
         in if rest = [] \<or> rest = [newline] then Some (n0 + 4 + length l) else None)
      else None)"

text \<open>The three cleaning statements on the title of a new occupation.\<close>

definition clean_title :: "string \<Rightarrow> string" where
  "clean_title t =
     strip_chars '';,. ''
       (re_sub match_isco_tail [] 0 None (re_sub match_isco_paren [] 0 None t))"

section \<open>Assembling the records of a column\<close>

text \<open>The loop's variables.\<close>

record state =
  occupations :: "occupation list"
  current_occ :: "occupation option"
  description_lines :: "string list"
  in_metadata :: bool

text \<open>
  What the four finalization sites share: the description is set to the joined
  buffer, and the record is appended when \<^verbatim>\<open>is_valid()\<close> returns true. An exception of
  \<^verbatim>\<open>is_valid\<close> leaves the function.
\<close>

definition finalize :: "occupation list \<Rightarrow> occupation \<Rightarrow> string list \<Rightarrow> error + occupation list" where
  "finalize occs occ buf =
     (let occ' = occ\<lparr>description := strip (join '' '' buf)\<rparr> in
      case is_valid occ' of
        Inl e \<Rightarrow> Inl e
      | Inr ok \<Rightarrow> Inr (if ok then occs @ [occ'] else occs))"

text \<open>
  The guarded form the sites use: \<^verbatim>\<open>if current_occ and description_lines:\<close> followed by
  the finalization. It gives the output list as it stands afterwards.
\<close>

definition save_current :: "state \<Rightarrow> error + occupation list" where
  "save_current st =
     (case current_occ st of
        None \<Rightarrow> Inr (occupations st)
      | Some occ \<Rightarrow>
          if description_lines st = [] then Inr (occupations st)
          else finalize (occupations st) occ (description_lines st))"

text \<open>\<^verbatim>\<open>line.split()[0] if line.split() else ""\<close>.\<close>

definition first_word :: "string \<Rightarrow> string" where
  "first_word line = (case split line of [] \<Rightarrow> [] | w # _ \<Rightarrow> w)"

text \<open>
  The title of a new occupation: the words behind the first one, joined by single
  spaces and stripped, then cleaned.
\<close>

definition title_of_line :: "string \<Rightarrow> string" where
  "title_of_line line = clean_title (strip (join '' '' (tl (split line))))"

text \<open>
  One iteration of the loop of \<^verbatim>\<open>extract_occupations_from_column\<close>; \<^verbatim>\<open>continue\<close> returns
  the state as it stands. Behind the test of \<^verbatim>\<open>in_metadata\<close> the flag is false: it was
  false already, or the branch has just cleared it.
\<close>

definition process_line :: "state \<Rightarrow> string \<Rightarrow> error + state" where
  "process_line st raw =
     (let line = strip raw in
      if line = [] \<or> length line < 2 then Inr st
      else if match_all_digits line \<and> length line \<le> 3 then Inr st
      else if is_metadata_section line then
        (case save_current st of
           Inl e \<Rightarrow> Inl e
         | Inr occs \<Rightarrow>
             if current_occ st = None \<or> description_lines st = []
             then Inr (st\<lparr>in_metadata := True\<rparr>)
             else Inr \<lparr>occupations = occs, current_occ = None, description_lines = [],
                       in_metadata = True\<rparr>)
      else if in_metadata st \<and> \<not> is_valid_nco_code (first_word line) then Inr st
      else if is_header_line line then Inr (st\<lparr>in_metadata := False\<rparr>)
      else if is_valid_nco_code (first_word line) then
        (case save_current st of
           Inl e \<Rightarrow> Inl e
         | Inr occs \<Rightarrow>
             (let title = title_of_line line in
              if title = [] \<or> length title < 3 then
                Inr \<lparr>occupations = occs, current_occ = None, description_lines = [],
                     in_metadata = False\<rparr>
              else
                Inr \<lparr>occupations = occs,
                     current_occ =
                       Some \<lparr>nco_code = first_word line, title = title, description = []\<rparr>,
                     description_lines = [], in_metadata = False\<rparr>))
      else if current_occ st = None then Inr (st\<lparr>in_metadata := False\<rparr>)
      else if should_stop_description line then
        (case save_current st of
           Inl e \<Rightarrow> Inl e
         | Inr occs \<Rightarrow>
             Inr \<lparr>occupations = occs, current_occ = None, description_lines = [],
                  in_metadata = True\<rparr>)
      else if \<not> is_metadata_section line \<and> \<not> is_header_line line then
        Inr (st\<lparr>description_lines := description_lines st @ [line], in_metadata := False\<rparr>)
      else Inr (st\<lparr>in_metadata := False\<rparr>))"

text \<open>The loop, left at the first exception.\<close>

fun process_lines :: "state \<Rightarrow> string list \<Rightarrow> error + state" where
  "process_lines st [] = Inr st"
| "process_lines st (l # ls) =
     (case process_line st l of Inl e \<Rightarrow> Inl e | Inr st' \<Rightarrow> process_lines st' ls)"

definition initial_state :: state where
  "initial_state =
     \<lparr>occupations = [], current_occ = None, description_lines = [], in_metadata = False\<rparr>"

text \<open>
  \<^verbatim>\<open>NCOExtractor.extract_occupations_from_column\<close>: the loop, then the last occupation.
\<close>

definition extract_occupations_from_column :: "string list \<Rightarrow> error + occupation list" where
  "extract_occupations_from_column lines =
     (case process_lines initial_state lines of
        Inl e \<Rightarrow> Inl e
      | Inr st \<Rightarrow> save_current st)"

section \<open>Deduplication and text cleaning\<close>

text \<open>\<^verbatim>\<open>NCOExtractor.deduplicate\<close>, on the list it reads from \<^verbatim>\<open>self.occupations\<close>.\<close>

fun dedup_loop :: "string set \<Rightarrow> occupation list \<Rightarrow> occupation list \<Rightarrow> occupation list" where
  "dedup_loop seen_codes unique_occupations [] = unique_occupations"
| "dedup_loop seen_codes unique_occupations (occ # occs) =
     (if nco_code occ \<notin> seen_codes
      then dedup_loop (insert (nco_code occ) seen_codes) (unique_occupations @ [occ]) occs
      else dedup_loop seen_codes unique_occupations occs)"

definition deduplicate :: "occupation list \<Rightarrow> occupation list" where
  "deduplicate occs = dedup_loop {} [] occs"

text \<open>The patterns of \<^verbatim>\<open>clean_text\<close>, each at a position.\<close>

definition match_whitespace :: "char option \<Rightarrow> string \<Rightarrow> nat option" where
  "match_whitespace prev s =
     (let ws = takeWhile isspace s in if ws = [] then None else Some (length ws))"

definition is_artifact :: "char \<Rightarrow> bool" where
  "is_artifact c = (ord c \<le> 8 \<or> ord c = 11 \<or> ord c = 12 \<or> (14 \<le> ord c \<and> ord c \<le> 31))"

text \<open>
  \<^verbatim>\<open>\bPage\s+\d+\b\<close> under \<^verbatim>\<open>re.IGNORECASE\<close>. The closing \<^verbatim>\<open>\b\<close> is tested behind the
  whole run of digits: behind fewer of them stands a digit, which is no boundary.
\<close>

definition match_page :: "char option \<Rightarrow> string \<Rightarrow> nat option" where
  "match_page prev s =
     (if word_boundary prev (first_char s) \<and> startswith_ci ''Page'' s then
        (let ws = takeWhile isspace (drop 4 s);
             ds = takeWhile is_decimal (dropWhile isspace (drop 4 s));
             rest = dropWhile is_decimal (dropWhile isspace (drop 4 s))
         in if ws \<noteq> [] \<and> ds \<noteq> [] \<and> word_boundary (Some (last ds)) (first_char rest)
            then Some (4 + length ws + length ds) else None)
      else None)"

text \<open>\<^verbatim>\<open>\bCode\s+\d{4}\s+Title\b\<close> under \<^verbatim>\<open>re.IGNORECASE\<close>.\<close>

definition match_code_title :: "char option \<Rightarrow> string \<Rightarrow> nat option" where
  "match_code_title prev s =
     (if word_boundary prev (first_char s) \<and> startswith_ci ''Code'' s then
        (let ws1 = takeWhile isspace (drop 4 s);
             r2 = dropWhile isspace (drop 4 s);
             ws2 = takeWhile isspace (drop 4 r2);
             r4 = dropWhile isspace (drop 4 r2)
         in if ws1 \<noteq> [] \<and> digits_at 4 r2 \<and> ws2 \<noteq> [] \<and> startswith_ci ''Title'' r4 \<and>
               word_boundary (first_char (drop 4 r4)) (first_char (drop 5 r4))
            then Some (4 + length ws1 + 4 + length ws2 + 5) else None)
      else None)"

text \<open>\<^verbatim>\<open>NCOExtractor.clean_text\<close>: the four substitutions in the source's order, then \<^verbatim>\<open>strip\<close>.\<close>

definition clean_text :: "string \<Rightarrow> string" where
  "clean_text text =
     (let t1 = re_sub match_whitespace '' '' 0 None text;
          t2 = filter (\<lambda>c. \<not> is_artifact c) t1;
          t3 = re_sub match_page [] 0 None t2;
          t4 = re_sub match_code_title [] 0 None t3
      in strip t4)"

section \<open>The notions of the specification\<close>



text \<open>
  The classifier's kinds Noise and Description, on a stripped line, by the tests of the
  loop: noise is what its first two tests skip, and a description line is one that no
  earlier kind takes.
\<close>

definition noise_line :: "string \<Rightarrow> bool" where
  "noise_line line =
     (if line = [] then True
      else if length line < 2 then True
      else match_all_digits line \<and> length line \<le> 3)"

definition description_line :: "string \<Rightarrow> bool" where
  "description_line line =
     (if noise_line line then False
      else if is_metadata_section line then False
      else if is_header_line line then False
      else if is_valid_nco_code (first_word line) then False
      else True)"

text \<open>
  The index form of a stable first-occurrence filter keyed by the code: the records at
  the positions, in increasing order, whose code no earlier record bears.
\<close>

definition first_occurrences :: "occupation list \<Rightarrow> occupation list" where
  "first_occurrences occs =
     map (\<lambda>i. occs ! i)
       (filter (\<lambda>i. nco_code (occs ! i) \<notin> nco_code ` set (take i occs)) [0..<length occs])"

text \<open>
  Two invariants of the loop: every code in the output and the open candidate's code
  passed \<open>is_valid_nco_code\<close>, and every record in the output is valid.
\<close>

definition codes_ok :: "state \<Rightarrow> bool" where
  "codes_ok st =
     (list_all (\<lambda>occ. is_valid_nco_code (nco_code occ)) (occupations st) \<and>
      (case current_occ st of None \<Rightarrow> True | Some occ \<Rightarrow> is_valid_nco_code (nco_code occ)))"

definition all_valid :: "occupation list \<Rightarrow> bool" where
  "all_valid occs = list_all (\<lambda>occ. is_valid occ = Inr True) occs"

text \<open>
  Counting candidates: the lines of the input whose first word is a valid code (only
  such a line opens a candidate), and the records of the output together with the open
  candidate.
\<close>

definition code_lines :: "string list \<Rightarrow> nat" where
  "code_lines ls = length (filter (\<lambda>l. is_valid_nco_code (first_word (strip l))) ls)"

definition candidates :: "state \<Rightarrow> nat" where
  "candidates st =
     length (occupations st) + (case current_occ st of None \<Rightarrow> 0 | Some occ \<Rightarrow> 1)"

section \<open>Facts about the string functions\<close>

lemma isdigit_char_facts:
  "isdigit_char c \<Longrightarrow> \<not> isspace c \<and> \<not> isupper_char c \<and> c \<noteq> CHR ''n''"
  by (auto simp: isdigit_char_def is_decimal_def isspace_def isupper_char_def ord_def)


lemma split_from_length:
  "w \<in> set (split_from acc s) \<Longrightarrow> length w \<le> length acc + length s"
  by (induction s arbitrary: acc) (fastforce split: if_splits)+

lemma first_word_length: "length (first_word line) \<le> length line"
proof (cases "split line")
  case Nil
  then show ?thesis by (simp add: first_word_def)
next
  case (Cons w ws)
  then have "w \<in> set (split_from [] line)" by (simp add: split_def)
  from split_from_length [OF this] Cons show ?thesis by (simp add: first_word_def)
qed

section \<open>Validity of a record and of a code\<close>




text \<open>
  C8. The code-validity predicate accepts \<open>6111\<close> and rejects \<open>0111\<close> (leading zero),
  \<open>2015\<close> (a calendar year of the denylist), \<open>611\<close> (wrong length) and \<open>61a1\<close> (a
  character that is no digit).
\<close>

theorem is_valid_nco_code_examples:
  "is_valid_nco_code ''6111'' \<and> \<not> is_valid_nco_code ''0111'' \<and>
   \<not> is_valid_nco_code ''2015'' \<and> \<not> is_valid_nco_code ''611'' \<and>
   \<not> is_valid_nco_code ''61a1''"
  by code_simp

section \<open>The loop's invariants\<close>

lemma finalize_Inr:
  "finalize occs occ buf = Inr occs' \<Longrightarrow>
     occs' = occs \<or>
     (occs' = occs @ [occ\<lparr>description := strip (join '' '' buf)\<rparr>] \<and>
      is_valid (occ\<lparr>description := strip (join '' '' buf)\<rparr>) = Inr True)"
  by (auto simp: finalize_def Let_def split: sum.splits if_splits)

lemma save_current_Inr:
  "save_current st = Inr occs' \<Longrightarrow>
     occs' = occupations st \<or>
     (\<exists>occ. current_occ st = Some occ \<and>
        occs' = occupations st @ [occ\<lparr>description := strip (join '' '' (description_lines st))\<rparr>] \<and>
        is_valid (occ\<lparr>description := strip (join '' '' (description_lines st))\<rparr>) = Inr True)"
  by (auto simp: save_current_def split: option.splits if_splits dest: finalize_Inr)

lemma save_current_codes:
  "save_current st = Inr occs' \<Longrightarrow> codes_ok st \<Longrightarrow>
     list_all (\<lambda>occ. is_valid_nco_code (nco_code occ)) occs'"
  by (auto simp: codes_ok_def dest!: save_current_Inr)

lemma save_current_valid:
  "save_current st = Inr occs' \<Longrightarrow> all_valid (occupations st) \<Longrightarrow> all_valid occs'"
  by (auto simp: all_valid_def dest!: save_current_Inr)

lemma process_line_occupations:
  "process_line st raw = Inr st' \<Longrightarrow>
     occupations st' = occupations st \<or> save_current st = Inr (occupations st')"
  by (auto simp: process_line_def Let_def split: if_splits sum.splits)

lemma process_line_current:
  "process_line st raw = Inr st' \<Longrightarrow>
     current_occ st' = None \<or> current_occ st' = current_occ st \<or>
     (\<exists>t. is_valid_nco_code (first_word (strip raw)) \<and>
        current_occ st' = Some \<lparr>nco_code = first_word (strip raw), title = t, description = []\<rparr>)"
  by (auto simp: process_line_def Let_def split: if_splits sum.splits)

lemma process_line_codes_ok:
  assumes "process_line st raw = Inr st'" and "codes_ok st"
  shows "codes_ok st'"
proof -
  have "list_all (\<lambda>occ. is_valid_nco_code (nco_code occ)) (occupations st')"
    using process_line_occupations [OF assms(1)] assms(2)
    by (auto simp: codes_ok_def dest: save_current_codes)
  moreover have
    "case current_occ st' of None \<Rightarrow> True | Some occ \<Rightarrow> is_valid_nco_code (nco_code occ)"
    using process_line_current [OF assms(1)] assms(2)
    by (auto simp: codes_ok_def split: option.splits)
  ultimately show ?thesis by (simp add: codes_ok_def)
qed

lemma process_line_all_valid:
  assumes "process_line st raw = Inr st'" and "all_valid (occupations st)"
  shows "all_valid (occupations st')"
  using process_line_occupations [OF assms(1)] assms(2)
  by (auto dest: save_current_valid)

lemma process_lines_codes_ok:
  "process_lines st ls = Inr st' \<Longrightarrow> codes_ok st \<Longrightarrow> codes_ok st'"
proof (induction ls arbitrary: st)
  case Nil
  then show ?case by simp
next
  case (Cons l ls)
  then show ?case
    by (auto split: sum.splits dest: process_line_codes_ok)
qed

lemma process_lines_all_valid:
  "process_lines st ls = Inr st' \<Longrightarrow> all_valid (occupations st) \<Longrightarrow>
     all_valid (occupations st')"
proof (induction ls arbitrary: st)
  case Nil
  then show ?case by simp
next
  case (Cons l ls)
  then show ?case
    by (auto split: sum.splits dest: process_line_all_valid)
qed

lemma extract_codes_ok:
  assumes "extract_occupations_from_column lines = Inr occs"
  shows "list_all (\<lambda>occ. is_valid_nco_code (nco_code occ)) occs"
proof -
  from assms obtain st where st: "process_lines initial_state lines = Inr st"
    and sc: "save_current st = Inr occs"
    by (auto simp: extract_occupations_from_column_def split: sum.splits)
  have "codes_ok initial_state" by (simp add: codes_ok_def initial_state_def)
  with st have "codes_ok st" by (rule process_lines_codes_ok)
  with sc show ?thesis by (rule save_current_codes)
qed

text \<open>
  Whenever the function returns, every record it returns is valid: the four sites
  append under \<^verbatim>\<open>if current_occ.is_valid()\<close> only.
\<close>

lemma extract_all_valid:
  assumes "extract_occupations_from_column lines = Inr occs"
  shows "all_valid occs"
proof -
  from assms obtain st where st: "process_lines initial_state lines = Inr st"
    and sc: "save_current st = Inr occs"
    by (auto simp: extract_occupations_from_column_def split: sum.splits)
  have "all_valid (occupations initial_state)" by (simp add: all_valid_def initial_state_def)
  with st have "all_valid (occupations st)" by (rule process_lines_all_valid)
  with sc show ?thesis by (rule save_current_valid)
qed

section \<open>The end of the input\<close>

text \<open>
  A candidate with an empty buffer is never valid, so the guard on the buffer changes
  nothing: the statement behind the loop gives what an unguarded finalization of the
  open candidate gives. Every record of the output comes from a candidate of its own,
  so the output is no longer than the number of lines that start with a valid code.
\<close>

lemma strip_Nil: "strip [] = []"
  by (simp add: strip_def)

lemma is_valid_empty_description: "description occ = [] \<Longrightarrow> is_valid occ = Inr False"
  by (simp add: is_valid_def)

lemma finalize_empty_buffer: "finalize occs occ [] = Inr occs"
  by (simp add: finalize_def strip_Nil is_valid_empty_description)

lemma save_current_unguarded:
  "save_current st =
     (case current_occ st of
        None \<Rightarrow> Inr (occupations st)
      | Some occ \<Rightarrow> finalize (occupations st) occ (description_lines st))"
  by (simp add: save_current_def finalize_empty_buffer split: option.splits)

lemma save_current_length:
  "save_current st = Inr occs \<Longrightarrow> length occs \<le> candidates st"
  by (auto simp: candidates_def dest!: save_current_Inr)

lemma process_line_candidates:
  assumes "process_line st raw = Inr st'"
  shows "candidates st' \<le>
         candidates st + (if is_valid_nco_code (first_word (strip raw)) then 1 else 0)"
  using assms
  by (auto simp: process_line_def Let_def candidates_def
      split: if_splits sum.splits option.splits dest!: save_current_Inr)

lemma process_lines_candidates:
  "process_lines st ls = Inr st' \<Longrightarrow> candidates st' \<le> candidates st + code_lines ls"
proof (induction ls arbitrary: st)
  case Nil
  then show ?case by (simp add: code_lines_def)
next
  case (Cons l ls)
  from Cons.prems obtain st1 where a: "process_line st l = Inr st1"
    and b: "process_lines st1 ls = Inr st'"
    by (auto split: sum.splits)
  from process_line_candidates [OF a] Cons.IH [OF b] show ?case
    by (auto simp: code_lines_def split: if_splits)
qed

lemma extract_length:
  assumes "extract_occupations_from_column lines = Inr occs"
  shows "length occs \<le> code_lines lines"
proof -
  from assms obtain st where st: "process_lines initial_state lines = Inr st"
    and sc: "save_current st = Inr occs"
    by (auto simp: extract_occupations_from_column_def split: sum.splits)
  have "candidates initial_state = 0" by (simp add: candidates_def initial_state_def)
  with process_lines_candidates [OF st] save_current_length [OF sc] show ?thesis by simp
qed

lemma extract_end_of_input:
  assumes "process_lines initial_state lines = Inr st"
  shows "extract_occupations_from_column lines =
     (case current_occ st of
        None \<Rightarrow> Inr (occupations st)
      | Some occ \<Rightarrow>
          (case is_valid (occ\<lparr>description := strip (join '' '' (description_lines st))\<rparr>) of
             Inl e \<Rightarrow> Inl e
           | Inr ok \<Rightarrow>
               Inr (if ok then
                      occupations st @
                        [occ\<lparr>description := strip (join '' '' (description_lines st))\<rparr>]
                    else occupations st)))"
  using assms
  by (simp add: extract_occupations_from_column_def save_current_unguarded finalize_def Let_def
      split: option.splits sum.splits)

section \<open>Runs of the assembler\<close>

lemma farmer_run:
  "extract_occupations_from_column
     [''6111 Farmer'', ''Grows crops on farmland using traditional methods for sustenance.'',
      ''6112 Gardener'', ''x''] =
   Inr [\<lparr>nco_code = ''6111'', title = ''Farmer'',
         description = ''Grows crops on farmland using traditional methods for sustenance.''\<rparr>]"
  by code_simp

lemma farmer_loop:
  "process_lines initial_state
     [''6111 Farmer'', ''Grows crops on farmland using traditional methods for sustenance.'',
      ''6112 Gardener'', ''x''] =
   Inr \<lparr>occupations =
          [\<lparr>nco_code = ''6111'', title = ''Farmer'',
            description = ''Grows crops on farmland using traditional methods for sustenance.''\<rparr>],
        current_occ = Some \<lparr>nco_code = ''6112'', title = ''Gardener'', description = []\<rparr>,
        description_lines = [], in_metadata = False\<rparr>"
  by code_simp

text \<open>
  C1, at an input where it fails. The line \<open>\<onesuperior>234 Farmer\<close> starts a candidate, since
  \<^verbatim>\<open>isdigit\<close> accepts the superscript one (U+00B9) and \<open>is_valid_nco_code\<close> with it; at
  the end of the input the candidate has a description, \<open>is_valid\<close> calls \<^verbatim>\<open>int\<close> on the
  superscript, and the \<^verbatim>\<open>ValueError\<close> leaves \<open>extract_occupations_from_column\<close>: the
  candidate is not dropped silently.
\<close>

theorem extract_raises_on_superscript_code:
  "is_valid_nco_code [CHR 0xB9, CHR ''2'', CHR ''3'', CHR ''4''] \<and>
   is_valid \<lparr>nco_code = [CHR 0xB9, CHR ''2'', CHR ''3'', CHR ''4''], title = ''Farmer'',
             description = ''Grows crops on farmland using traditional methods.''\<rparr> =
     Inl ValueError \<and>
   extract_occupations_from_column
     [[CHR 0xB9, CHR ''2'', CHR ''3'', CHR ''4'', CHR '' '',
       CHR ''F'', CHR ''a'', CHR ''r'', CHR ''m'', CHR ''e'', CHR ''r''],
      ''Grows crops on farmland using traditional methods.''] = Inl ValueError"
  by code_simp

lemma gardener_loop:
  "process_lines initial_state
     [''6111 Farmer'', ''Grows crops on farmland using traditional methods for sustenance.'',
      ''6112 Gardener'', ''Tends gardens and grows plants for pay.''] =
   Inr \<lparr>occupations =
          [\<lparr>nco_code = ''6111'', title = ''Farmer'',
            description = ''Grows crops on farmland using traditional methods for sustenance.''\<rparr>],
        current_occ = Some \<lparr>nco_code = ''6112'', title = ''Gardener'', description = []\<rparr>,
        description_lines = [''Tends gardens and grows plants for pay.''],
        in_metadata = False\<rparr>"
  by code_simp

text \<open>
  C7. The four lines \<open>6111 Farmer\<close>, its description, \<open>6112 Gardener\<close> and \<open>x\<close> give
  exactly one record: code 6111, title Farmer and the description line, which is
  longer than 20. The line \<open>x\<close> is shorter than 2 and is skipped, so the loop ends with
  the candidate 6112 open on an empty buffer; finalized with that buffer it is not
  valid and is not emitted. At the end of every input the open candidate, if there is
  one, is finalized exactly once: its description is the joined buffer, and it is
  appended once when \<open>is_valid\<close> returns true and dropped when it returns false. No
  candidate is emitted twice: the output has at most one record for each line that
  starts with a valid code.
\<close>

theorem extract_farmer_gardener:
  "extract_occupations_from_column
     [''6111 Farmer'', ''Grows crops on farmland using traditional methods for sustenance.'',
      ''6112 Gardener'', ''x''] =
   Inr [\<lparr>nco_code = ''6111'', title = ''Farmer'',
         description = ''Grows crops on farmland using traditional methods for sustenance.''\<rparr>] \<and>
   20 < length ''Grows crops on farmland using traditional methods for sustenance.'' \<and>
   process_lines initial_state
     [''6111 Farmer'', ''Grows crops on farmland using traditional methods for sustenance.'',
      ''6112 Gardener'', ''x''] =
   Inr \<lparr>occupations =
          [\<lparr>nco_code = ''6111'', title = ''Farmer'',
            description = ''Grows crops on farmland using traditional methods for sustenance.''\<rparr>],
        current_occ = Some \<lparr>nco_code = ''6112'', title = ''Gardener'', description = []\<rparr>,
        description_lines = [], in_metadata = False\<rparr> \<and>
   is_valid \<lparr>nco_code = ''6112'', title = ''Gardener'', description = strip (join '' '' [])\<rparr> =
     Inr False \<and>
   (process_lines initial_state lines = Inr st \<longrightarrow>
    extract_occupations_from_column lines =
      (case current_occ st of
         None \<Rightarrow> Inr (occupations st)
       | Some occ \<Rightarrow>
           (case is_valid (occ\<lparr>description := strip (join '' '' (description_lines st))\<rparr>) of
              Inl e \<Rightarrow> Inl e
            | Inr ok \<Rightarrow>
                Inr (if ok then
                       occupations st @
                         [occ\<lparr>description := strip (join '' '' (description_lines st))\<rparr>]
                     else occupations st)))) \<and>
   (extract_occupations_from_column lines = Inr occs \<longrightarrow> length occs \<le> code_lines lines)"
proof -
  have v: "is_valid \<lparr>nco_code = ''6112'', title = ''Gardener'',
      description = strip (join '' '' [])\<rparr> = Inr False"
    by (simp add: is_valid_empty_description strip_Nil)
  have n: "20 < length ''Grows crops on farmland using traditional methods for sustenance.''"
    by simp
  show ?thesis
    using farmer_run farmer_loop v n extract_end_of_input [of lines st] extract_length [of lines occs]
    by (intro conjI impI) assumption+
qed

theorem extract_farmer_gardener_witness:
  "process_lines initial_state
     [''6111 Farmer'', ''Grows crops on farmland using traditional methods for sustenance.'',
      ''6112 Gardener'', ''Tends gardens and grows plants for pay.''] =
   Inr \<lparr>occupations =
          [\<lparr>nco_code = ''6111'', title = ''Farmer'',
            description = ''Grows crops on farmland using traditional methods for sustenance.''\<rparr>],
        current_occ = Some \<lparr>nco_code = ''6112'', title = ''Gardener'', description = []\<rparr>,
        description_lines = [''Tends gardens and grows plants for pay.''],
        in_metadata = False\<rparr> \<and>
   extract_occupations_from_column
     [''6111 Farmer'', ''Grows crops on farmland using traditional methods for sustenance.'',
      ''6112 Gardener'', ''Tends gardens and grows plants for pay.''] =
   Inr [\<lparr>nco_code = ''6111'', title = ''Farmer'',
         description = ''Grows crops on farmland using traditional methods for sustenance.''\<rparr>,
        \<lparr>nco_code = ''6112'', title = ''Gardener'',
         description = ''Tends gardens and grows plants for pay.''\<rparr>] \<and>
   code_lines
     [''6111 Farmer'', ''Grows crops on farmland using traditional methods for sustenance.'',
      ''6112 Gardener'', ''Tends gardens and grows plants for pay.''] = 2"
proof -
  let ?lines =
    "[''6111 Farmer'', ''Grows crops on farmland using traditional methods for sustenance.'',
      ''6112 Gardener'', ''Tends gardens and grows plants for pay.'']"
  let ?st =
    "\<lparr>occupations =
        [\<lparr>nco_code = ''6111'', title = ''Farmer'',
          description = ''Grows crops on farmland using traditional methods for sustenance.''\<rparr>],
      current_occ = Some \<lparr>nco_code = ''6112'', title = ''Gardener'', description = []\<rparr>,
      description_lines = [''Tends gardens and grows plants for pay.''],
      in_metadata = False\<rparr>"
  let ?occs =
    "[\<lparr>nco_code = ''6111'', title = ''Farmer'',
       description = ''Grows crops on farmland using traditional methods for sustenance.''\<rparr>,
      \<lparr>nco_code = ''6112'', title = ''Gardener'',
       description = ''Tends gardens and grows plants for pay.''\<rparr>]"
  have s: "strip ''Tends gardens and grows plants for pay.'' =
      ''Tends gardens and grows plants for pay.''"
    by code_simp
  have v: "is_valid \<lparr>nco_code = ''6112'', title = ''Gardener'',
      description = ''Tends gardens and grows plants for pay.''\<rparr> = Inr True"
    by code_simp
  have c: "code_lines ?lines = 2" by code_simp
  have e: "extract_occupations_from_column ?lines = Inr ?occs"
    using extract_farmer_gardener [where lines = ?lines and st = ?st, THEN conjunct2,
        THEN conjunct2, THEN conjunct2, THEN conjunct2, THEN conjunct1] gardener_loop
    by (simp add: s v)
  have "length ?occs \<le> code_lines ?lines"
    using extract_farmer_gardener [where lines = ?lines and occs = ?occs, THEN conjunct2,
        THEN conjunct2, THEN conjunct2, THEN conjunct2, THEN conjunct2] e
    by blast
  with gardener_loop e c show ?thesis by simp
qed

text \<open>
  C9. Every record that \<open>extract_occupations_from_column\<close> returns has a code that
  \<open>is_valid_nco_code\<close> accepts, so it is no calendar year of the denylist and has no
  leading zero. \<open>is_valid\<close> alone does not give this: it accepts a record with the code
  2015.
\<close>

theorem extracted_codes_accepted:
  assumes "extract_occupations_from_column lines = Inr occs" and "occ \<in> set occs"
  shows "is_valid_nco_code (nco_code occ) \<and>
         nco_code occ \<notin> set [''2015'', ''2016'', ''2017'', ''2018'', ''2019'', ''2020'', ''2021''] \<and>
         hd (nco_code occ) \<noteq> CHR ''0'' \<and>
         is_valid \<lparr>nco_code = ''2015'', title = ''Farmer'',
                   description = ''Grows crops on farmland.''\<rparr> = Inr True"
proof -
  have v: "is_valid_nco_code (nco_code occ)"
    using extract_codes_ok [OF assms(1)] assms(2) by (simp add: list_all_iff)
  have y: "is_valid \<lparr>nco_code = ''2015'', title = ''Farmer'',
                     description = ''Grows crops on farmland.''\<rparr> = Inr True"
    by code_simp
  from v have
    "nco_code occ \<notin> set [''2015'', ''2016'', ''2017'', ''2018'', ''2019'', ''2020'', ''2021''] \<and>
     hd (nco_code occ) \<noteq> CHR ''0''"
    by (simp add: is_valid_nco_code_def split: if_splits)
  with v y show ?thesis by simp
qed

theorem extracted_codes_accepted_witness:
  "extract_occupations_from_column
     [''6111 Farmer'', ''Grows crops on farmland using traditional methods for sustenance.'',
      ''6112 Gardener'', ''x''] =
   Inr [\<lparr>nco_code = ''6111'', title = ''Farmer'',
         description = ''Grows crops on farmland using traditional methods for sustenance.''\<rparr>] \<and>
   is_valid_nco_code ''6111''"
  using extracted_codes_accepted [OF farmer_run, of
      "\<lparr>nco_code = ''6111'', title = ''Farmer'',
        description = ''Grows crops on farmland using traditional methods for sustenance.''\<rparr>"]
    farmer_run
  by simp

section \<open>A token of four digits that is no code\<close>

lemma token4:
  assumes "isdigit_char a" "isdigit_char b" "isdigit_char c" "isdigit_char d"
  shows "strip [a, b, c, d] = [a, b, c, d]"
    and "lower [a, b, c, d] = [a, b, c, d]"
    and "first_word [a, b, c, d] = [a, b, c, d]"
  using assms
  by (simp_all add: strip_def lower_def lower_char_def first_word_def split_def
      isdigit_char_facts)

lemma token4_not_metadata:
  assumes "isdigit_char a" "isdigit_char b" "isdigit_char c" "isdigit_char d"
  shows "\<not> is_metadata_section [a, b, c, d]"
  using assms isdigit_char_facts [of a]
  by (auto simp: is_metadata_section_def token4 METADATA_KEYWORDS_def match_subcode_def
      match_qp_code_def digits_at_def)

lemma token4_not_header:
  assumes "isdigit_char a" "isdigit_char b" "isdigit_char c" "isdigit_char d"
  shows "\<not> is_header_line [a, b, c, d]"
  using assms by (simp add: is_header_line_def token4)

lemma token4_not_stop:
  assumes "isdigit_char a" "isdigit_char b" "isdigit_char c" "isdigit_char d"
  shows "\<not> should_stop_description [a, b, c, d]"
  using assms
  by (simp add: should_stop_description_def token4 match_isco08_def match_unit_group_def
      match_sub_group_def)

text \<open>
  C10. While a candidate is open and the metadata flag is clear, a line that, stripped,
  is one token of four digits that \<open>is_valid_nco_code\<close> rejects (such as \<open>2015\<close> or \<open>0111\<close>)
  is appended to the description buffer, and nothing else changes. It is no noise (the
  page-number test wants at most 3 characters), no metadata line and no header line
  (it is shorter than 5).
\<close>

theorem invalid_code_token_joins_description:
  assumes "current_occ st = Some occ" and "\<not> in_metadata st"
    and "strip raw = [a, b, c, d]"
    and "isdigit_char a" "isdigit_char b" "isdigit_char c" "isdigit_char d"
    and "\<not> is_valid_nco_code [a, b, c, d]"
  shows "process_line st raw =
           Inr (st\<lparr>description_lines := description_lines st @ [[a, b, c, d]]\<rparr>) \<and>
         \<not> noise_line [a, b, c, d] \<and> \<not> is_metadata_section [a, b, c, d] \<and>
         \<not> is_header_line [a, b, c, d]"
proof -
  note d = assms(4-7)
  have m: "\<not> is_metadata_section [a, b, c, d]" using d by (rule token4_not_metadata)
  have h: "\<not> is_header_line [a, b, c, d]" using d by (rule token4_not_header)
  have s: "\<not> should_stop_description [a, b, c, d]" using d by (rule token4_not_stop)
  have f: "first_word [a, b, c, d] = [a, b, c, d]" using d by (rule token4(3))
  have n: "\<not> noise_line [a, b, c, d]" by (simp add: noise_line_def)
  have "st\<lparr>description_lines := description_lines st @ [[a, b, c, d]], in_metadata := False\<rparr> =
        st\<lparr>description_lines := description_lines st @ [[a, b, c, d]]\<rparr>"
    using assms(2) by (cases st) simp
  then have "process_line st raw =
      Inr (st\<lparr>description_lines := description_lines st @ [[a, b, c, d]]\<rparr>)"
    using assms(1,2,3,8) m h s f by (simp add: process_line_def)
  with n m h show ?thesis by simp
qed

theorem invalid_code_token_joins_description_witness:
  "\<not> is_valid_nco_code ''2015'' \<and>
   process_line
     \<lparr>occupations = [],
      current_occ = Some \<lparr>nco_code = ''6111'', title = ''Farmer'', description = []\<rparr>,
      description_lines = [''Grows crops on farmland in''], in_metadata = False\<rparr>
     ''2015'' =
   Inr \<lparr>occupations = [],
        current_occ = Some \<lparr>nco_code = ''6111'', title = ''Farmer'', description = []\<rparr>,
        description_lines = [''Grows crops on farmland in'', ''2015''], in_metadata = False\<rparr> \<and>
   extract_occupations_from_column
     [''6111 Farmer'', ''Grows crops on farmland in'', ''2015'', ''using traditional methods.''] =
   Inr [\<lparr>nco_code = ''6111'', title = ''Farmer'',
         description = ''Grows crops on farmland in 2015 using traditional methods.''\<rparr>]"
proof -
  have s: "strip ''2015'' = [CHR ''2'', CHR ''0'', CHR ''1'', CHR ''5'']" by code_simp
  have d: "isdigit_char CHR ''2''" "isdigit_char CHR ''0''" "isdigit_char CHR ''1''"
    "isdigit_char CHR ''5''"
    by code_simp+
  have v: "\<not> is_valid_nco_code [CHR ''2'', CHR ''0'', CHR ''1'', CHR ''5'']" by code_simp
  have e: "extract_occupations_from_column
     [''6111 Farmer'', ''Grows crops on farmland in'', ''2015'', ''using traditional methods.''] =
   Inr [\<lparr>nco_code = ''6111'', title = ''Farmer'',
         description = ''Grows crops on farmland in 2015 using traditional methods.''\<rparr>]"
    by code_simp
  show ?thesis
    using invalid_code_token_joins_description [of
        "\<lparr>occupations = [],
          current_occ = Some \<lparr>nco_code = ''6111'', title = ''Farmer'', description = []\<rparr>,
          description_lines = [''Grows crops on farmland in''], in_metadata = False\<rparr>"
        "\<lparr>nco_code = ''6111'', title = ''Farmer'', description = []\<rparr>"
        "''2015''", OF _ _ s d v] v e
    by simp
qed

section \<open>The order of the loop's tests\<close>

text \<open>
  C3, at an input where it fails. The line \<open>6111 Section Managers\<close> is no noise and no
  metadata line and its first word is a valid code, but the loop calls \<open>is_header_line\<close>
  before it looks for a code, and the keyword test of \<open>is_header_line\<close> accepts the line
  for \<open>section\<close>: the line is skipped, no candidate is opened, and the occupation with
  its description is missing from the output. The same happens to
  \<open>7233 Spare Parts Fitters\<close> for \<open>part\<close>. The other test of \<open>is_header_line\<close>, for
  lines in capitals, leaves a line alone that starts with a valid code:
  \<open>6111 MANAGERS\<close> is no header and is extracted.
\<close>

theorem header_keyword_drops_code_line:
  "\<not> noise_line (strip ''6111 Section Managers'') \<and>
   \<not> is_metadata_section (strip ''6111 Section Managers'') \<and>
   is_valid_nco_code (first_word (strip ''6111 Section Managers'')) \<and>
   is_header_line (strip ''6111 Section Managers'') \<and>
   process_line initial_state ''6111 Section Managers'' = Inr initial_state \<and>
   extract_occupations_from_column
     [''6111 Section Managers'', ''Plans and directs the daily work of a company.''] = Inr [] \<and>
   extract_occupations_from_column
     [''7233 Spare Parts Fitters'', ''Fits and replaces worn components of machines.''] = Inr [] \<and>
   \<not> is_header_line ''6111 MANAGERS'' \<and>
   extract_occupations_from_column
     [''6111 MANAGERS'', ''Plans and directs the daily work of a company.''] =
   Inr [\<lparr>nco_code = ''6111'', title = ''MANAGERS'',
         description = ''Plans and directs the daily work of a company.''\<rparr>]"
  by code_simp

section \<open>The stop predicate and the metadata flag\<close>

lemma startswith_append: "startswith p s \<Longrightarrow> \<exists>r. s = p @ r"
  by (induction p s rule: startswith.induct) auto

lemma startswith_self: "startswith k (k @ r)"
  by (induction k) auto

lemma contains_mid: "contains k (a @ k @ r)"
proof (induction a)
  case Nil
  show ?case by (cases "k @ r") (use startswith_self [of k r] in auto)
next
  case (Cons c a)
  then show ?case by simp
qed

lemma startswith_length: "startswith p s \<Longrightarrow> length p \<le> length s"
  by (induction p s rule: startswith.induct) auto

lemma contains_length: "contains k s \<Longrightarrow> length k \<le> length s"
  by (induction s) (auto dest: startswith_length)

lemma search_unit_group: "search match_unit_group s \<Longrightarrow> contains ''group'' s"
proof (induction s)
  case Nil
  then show ?case by (simp add: match_unit_group_def)
next
  case (Cons c cs)
  show ?case
  proof (cases "match_unit_group (c # cs)")
    case True
    then obtain r where "c # cs = ''unit group'' @ r"
      unfolding match_unit_group_def using startswith_append by blast
    then have "c # cs = ''unit '' @ ''group'' @ r" by simp
    then show ?thesis by (simp only: contains_mid)
  next
    case False
    with Cons show ?thesis by simp
  qed
qed

lemma search_sub_group: "search match_sub_group s \<Longrightarrow> contains ''group'' s"
proof (induction s)
  case Nil
  then show ?case by (simp add: match_sub_group_def)
next
  case (Cons c cs)
  show ?case
  proof (cases "match_sub_group (c # cs)")
    case True
    then obtain r where "c # cs = ''sub-group'' @ r"
      unfolding match_sub_group_def using startswith_append by blast
    then have "c # cs = ''sub-'' @ ''group'' @ r" by simp
    then show ?thesis by (simp only: contains_mid)
  next
    case False
    with Cons show ?thesis by simp
  qed
qed

lemma group_is_header:
  assumes "contains ''group'' (strip (lower line))"
  shows "is_header_line line"
proof -
  have "5 \<le> length (strip (lower line))"
    using contains_length [OF assms] by simp
  with assms show ?thesis
    by (simp add: is_header_line_def HEADER_KEYWORDS_def)
qed

text \<open>
  Of the alternatives of the stop predicate only the ISCO-08 reference is met on a
  description line: a unit-group or sub-group marker contains \<open>group\<close> and is a header
  line, and a qualification-pack start is a metadata line.
\<close>

lemma stop_line_is_isco08:
  assumes "description_line line" and "should_stop_description line"
  shows "search match_isco08 (strip (lower line))"
proof -
  from assms(1) have m: "\<not> is_metadata_section line" and h: "\<not> is_header_line line"
    by (auto simp: description_line_def split: if_splits)
  from h have g: "\<not> contains ''group'' (strip (lower line))"
    using group_is_header by blast
  from m have q: "\<not> contains ''qualification pack'' (strip (lower line))"
    "\<not> contains ''qp-nos'' (strip (lower line))"
    by (auto simp: is_metadata_section_def METADATA_KEYWORDS_def Let_def split: if_splits)
  from assms(2) g q show ?thesis
    by (auto simp: should_stop_description_def Let_def split: if_splits
        dest: search_unit_group search_sub_group)
qed

lemma stop_markers_are_headers:
  assumes "search match_unit_group (strip (lower line)) \<or>
    search match_sub_group (strip (lower line))"
  shows "is_header_line line"
  using assms search_unit_group search_sub_group group_is_header by blast

text \<open>
  C6, at an input where it fails. \<open>ISCO-08 Unit Group: 6111\<close> satisfies the stop
  predicate, but it contains \<open>group\<close>, and the loop skips header lines before it asks
  the stop predicate: with a candidate open the line changes nothing, the candidate
  stays open, the flag stays clear, and the line behind it is appended to the
  description. The same holds for every line that matches the unit-group or the
  sub-group pattern (\<open>stop_markers_are_headers\<close>).
\<close>

theorem unit_group_marker_skipped_as_header:
  "should_stop_description (strip ''ISCO-08 Unit Group: 6111'') \<and>
   is_header_line (strip ''ISCO-08 Unit Group: 6111'') \<and>
   process_line
     \<lparr>occupations = [],
      current_occ = Some \<lparr>nco_code = ''6111'', title = ''Farmer'', description = []\<rparr>,
      description_lines = [''Grows crops on farmland using traditional methods.''],
      in_metadata = False\<rparr>
     ''ISCO-08 Unit Group: 6111'' =
   Inr \<lparr>occupations = [],
        current_occ = Some \<lparr>nco_code = ''6111'', title = ''Farmer'', description = []\<rparr>,
        description_lines = [''Grows crops on farmland using traditional methods.''],
        in_metadata = False\<rparr> \<and>
   extract_occupations_from_column
     [''6111 Farmer'', ''Grows crops on farmland using traditional methods.'',
      ''ISCO-08 Unit Group: 6111'', ''Other text that follows the reference.''] =
   Inr [\<lparr>nco_code = ''6111'', title = ''Farmer'',
         description =
           ''Grows crops on farmland using traditional methods. Other text that follows the reference.''\<rparr>]"
  by code_simp

section \<open>Deduplication and text cleaning, verified\<close>

lemma upt_Suc_shift: "[0..<Suc n] = 0 # map Suc [0..<n]"
  by (simp add: upt_conv_Cons map_Suc_upt del: upt_Suc)

lemma dedup_loop_index:
  "dedup_loop seen unique occs =
     unique @ map (\<lambda>i. occs ! i)
       (filter (\<lambda>i. nco_code (occs ! i) \<notin> seen \<union> nco_code ` set (take i occs))
          [0..<length occs])"
proof (induction occs arbitrary: seen unique)
  case Nil
  then show ?case by simp
next
  case (Cons occ occs)
  have shift: "[0..<length (occ # occs)] = 0 # map Suc [0..<length occs]"
    using upt_Suc_shift [of "length occs"] by simp
  show ?case
  proof (cases "nco_code occ \<in> seen")
    case True
    then have eq: "\<And>c. (c \<notin> seen \<and> c \<noteq> nco_code occ) = (c \<notin> seen)" by auto
    show ?thesis
      using True Cons.IH [of seen unique]
      by (simp only: shift dedup_loop.simps) (simp add: filter_map o_def eq conj_assoc [symmetric])
  next
    case False
    then show ?thesis
      using Cons.IH [of "insert (nco_code occ) seen" "unique @ [occ]"]
      by (simp only: shift dedup_loop.simps) (simp add: filter_map o_def conj_ac)
  qed
qed

text \<open>
  C5. \<open>deduplicate\<close> is the stable filter keyed by the code: it returns, in their
  original order, exactly the records whose code no earlier record of the input bears.
  Three records with the codes 6111, 6112 and 6111, whatever their texts, give the
  first and the second.
\<close>

theorem deduplicate_first_occurrences:
  "deduplicate occs = first_occurrences occs \<and>
   deduplicate
     [\<lparr>nco_code = ''6111'', title = t1, description = d1\<rparr>,
      \<lparr>nco_code = ''6112'', title = t2, description = d2\<rparr>,
      \<lparr>nco_code = ''6111'', title = t3, description = d3\<rparr>] =
     [\<lparr>nco_code = ''6111'', title = t1, description = d1\<rparr>,
      \<lparr>nco_code = ''6112'', title = t2, description = d2\<rparr>]"
  by (simp add: deduplicate_def first_occurrences_def dedup_loop_index)

text \<open>
  C4, at an input where it fails. Removing \<open>Page 1\<close> from \<open>a Page 1 b\<close> leaves the two
  spaces around it side by side, behind the substitution that collapses whitespace; a
  second pass collapses them, so the second result differs from the first.
\<close>

theorem clean_text_twice_differs:
  "clean_text ''a Page 1 b'' = ''a  b'' \<and> clean_text (clean_text ''a Page 1 b'') = ''a b''"
  by code_simp

end
